theory Spec2Isabelle
  imports Main
begin

section \<open>JavaScript values\<close>

text \<open>
  The library under study (src/index.ts) is one factory,
  \<open>defineUseDependencyInjection\<close>, whose result is the closure
  \<open>UseDependencyInjection\<close>. Both inspect their arguments at run time
  (\<open>!= null\<close>, \<open>typeof ... === 'function'\<close>, \<open>=== 'provide'\<close>, \<open>in\<close>), so arguments are
  modelled as dynamically typed values.

  A function value is a zero-argument callable, as every callback of the library
  is called without arguments. It is represented by what a call of it does: it returns a
  value or it throws one. Callbacks are taken to leave the host context alone.
  Primitive values other than \<open>null\<close> and \<open>undefined\<close> are strings and symbols; a
  symbol carries the number that makes it unique and its optional description.
  Error objects carry their message; functions and error objects carry no further
  properties.
\<close>

datatype jsval =
    Undefined
  | Null
  | Str string
  | Sym nat "string option"
  | Obj "(string \<times> jsval) list"
  | Fn thunk
  | Error string
  | TypeError string
and thunk =
    Returns jsval
  | Throws jsval

text \<open>The result of an evaluation that may throw: \<open>Inl\<close> carries the thrown value.\<close>

type_synonym 'a result = "jsval + 'a"

text \<open>\<open>v == null\<close>\<close>

fun nullish :: "jsval \<Rightarrow> bool" where
  "nullish Undefined = True"
| "nullish Null = True"
| "nullish _ = False"

text \<open>\<open>typeof v === 'function'\<close>\<close>

fun is_function :: "jsval \<Rightarrow> bool" where
  "is_function (Fn _) = True"
| "is_function _ = False"

text \<open>\<open>a ?? b\<close>, for an operand \<open>b\<close> whose evaluation has no effect\<close>

definition coalesce :: "jsval \<Rightarrow> jsval \<Rightarrow> jsval" where
  "coalesce a b = (if nullish a then b else a)"

text \<open>
  \<open>f()\<close>. Calling a value that is not a function is a \<open>TypeError\<close> of the engine,
  whose message text is the engine's own; a fixed text stands for it.
\<close>

fun call :: "jsval \<Rightarrow> jsval result" where
  "call (Fn (Returns v)) = Inr v"
| "call (Fn (Throws e)) = Inl e"
| "call _ = Inl (TypeError ''is not a function'')"

text \<open>\<open>f?.()\<close>\<close>

definition optional_call :: "jsval \<Rightarrow> jsval result" where
  "optional_call f = (if nullish f then Inr Undefined else call f)"

text \<open>
  \<open>name in v\<close>. The operator throws a \<open>TypeError\<close> on every value that is not an
  object, \<open>null\<close> and \<open>undefined\<close> included. Functions and error objects are objects;
  they have none of the properties the library asks for.
\<close>

fun has_property :: "string \<Rightarrow> jsval \<Rightarrow> bool result" where
  "has_property name (Obj ps) = Inr (name \<in> fst ` set ps)"
| "has_property name (Fn _) = Inr False"
| "has_property name (Error _) = Inr False"
| "has_property name (TypeError _) = Inr False"
| "has_property name _ = Inl (TypeError ''Cannot use in operator'')"

text \<open>
  \<open>v.name\<close>, for the three option names the library reads. No read in the library is
  applied to \<open>null\<close> or \<open>undefined\<close> (where it would throw): \<open>options\<close> is \<open>{}\<close> or
  an argument tested \<open>!= null\<close>, \<open>overrideOptions\<close> is read only after \<open>in\<close> has
  succeeded on it.
\<close>

fun get_property :: "jsval \<Rightarrow> string \<Rightarrow> jsval" where
  "get_property (Obj ps) name = (case map_of ps name of Some v \<Rightarrow> v | None \<Rightarrow> Undefined)"
| "get_property _ name = Undefined"

text \<open>
  The name of the property that holds the code unit of a string at an index: the index
  in decimal digits.
\<close>

definition decimal_digits :: string where
  "decimal_digits = ''0123456789''"

definition digit :: "nat \<Rightarrow> char" where
  "digit d = decimal_digits ! d"

fun index_name :: "nat \<Rightarrow> string" where
  "index_name n =
     (if n < 10 then [digit n] else index_name (n div 10) @ [digit (n mod 10)])"

declare index_name.simps [simp del]

fun indexed :: "nat \<Rightarrow> string \<Rightarrow> (string \<times> jsval) list" where
  "indexed i [] = []"
| "indexed i (ch # s) = (index_name i, Str [ch]) # indexed (Suc i) s"

text \<open>
  \<open>{ ...v }\<close>: the own enumerable properties of \<open>v\<close>. A string spreads into one
  property for each index; \<open>null\<close>, \<open>undefined\<close>, symbols, functions and error
  objects have none.
\<close>

fun spread :: "jsval \<Rightarrow> (string \<times> jsval) list" where
  "spread (Obj ps) = ps"
| "spread (Str s) = indexed 0 s"
| "spread _ = []"

text \<open>\<open>o.name = v\<close> on an object held as its property list\<close>

fun set_property :: "(string \<times> jsval) list \<Rightarrow> string \<Rightarrow> jsval \<Rightarrow> (string \<times> jsval) list" where
  "set_property [] name v = [(name, v)]"
| "set_property ((n, w) # ps) name v =
     (if n = name then (n, v) # ps else (n, w) # set_property ps name v)"

text \<open>
  \<open>injectKey.toString()\<close>. The declared type of a key is \<open>InjectionKey<T> | string\<close>,
  a symbol or a string, and these two cases are those of the language. For the other
  values the string forms of \<open>Object.prototype.toString\<close> and \<open>Error.prototype.toString\<close>
  are given; the source text of a function is not part of the model. The key of a
  closure that the factory returns is never \<open>null\<close> or \<open>undefined\<close> (line 277).
\<close>

fun toString :: "jsval \<Rightarrow> string" where
  "toString (Str s) = s"
| "toString (Sym n None) = ''Symbol()''"
| "toString (Sym n (Some d)) = ''Symbol('' @ d @ '')''"
| "toString (Error m) = (if m = [] then ''Error'' else ''Error: '' @ m)"
| "toString (TypeError m) = (if m = [] then ''TypeError'' else ''TypeError: '' @ m)"
| "toString (Fn _) = ''function''"
| "toString _ = ''[object Object]''"

section \<open>The host context\<close>

text \<open>
  \<open>provide\<close> and \<open>inject\<close> are imported from the host framework (vue-demi); the
  repository does not hold them. The spec (sections 1 and 6) gives them as
  \<open>set(key, value)\<close>, which attaches a value to the current component's subtree scope,
  and \<open>get(key)\<close>, which returns the nearest ancestor's attached value for the key,
  walking up the tree, or else the given default, or else an absent value.

  A host is the scope of the component that is being set up, and the scopes of its
  ancestors, the nearest first.
\<close>

type_synonym scope = "jsval \<rightharpoonup> jsval"

record host =
  own :: scope
  ancestors :: "scope list"

text \<open>
  Modelled from the spec: the walk up the tree of the host's \<open>get\<close>, which is not in
  the repository: the value that the nearest scope holding the key attaches to it.
\<close>

fun nearest :: "scope list \<Rightarrow> jsval \<Rightarrow> jsval option" where
  "nearest [] k = None"
| "nearest (s # ss) k = (case s k of Some v \<Rightarrow> Some v | None \<Rightarrow> nearest ss k)"

text \<open>
  Modelled from the spec: \<open>provide(key, value)\<close> of the host framework, which is not in
  the repository. It attaches the value to the scope of the current component.
\<close>

definition provide :: "jsval \<Rightarrow> jsval \<Rightarrow> host \<Rightarrow> host" where
  "provide k v h = h\<lparr>own := (own h)(k \<mapsto> v)\<rparr>"

text \<open>
  Modelled from the spec: \<open>inject(key)\<close> of the host framework, which is not in the
  repository. It returns the nearest ancestor's attached value, or \<open>undefined\<close>.
\<close>

definition inject :: "jsval \<Rightarrow> host \<Rightarrow> jsval" where
  "inject k h = (case nearest (ancestors h) k of Some v \<Rightarrow> v | None \<Rightarrow> Undefined)"

text \<open>
  Modelled from the spec: \<open>inject(key, defaultValue, treatDefaultAsFactory)\<close> of the host
  framework, which is not in the repository. It returns the nearest ancestor's attached
  value, or else the default, which it calls first when the flag is set and the default
  is a function.
\<close>

definition inject_default :: "jsval \<Rightarrow> jsval \<Rightarrow> bool \<Rightarrow> host \<Rightarrow> jsval result" where
  "inject_default k d treatDefaultAsFactory h =
     (case nearest (ancestors h) k of
        Some v \<Rightarrow> Inr v
      | None \<Rightarrow> if treatDefaultAsFactory \<and> is_function d then call d else Inr d)"

text \<open>
  Modelled from the spec: the host of a child component, once the setup of its parent
  is over; the parent's scope has become the nearest ancestor's.
\<close>

definition child :: "host \<Rightarrow> host" where
  "child h = \<lparr>own = Map.empty, ancestors = own h # ancestors h\<rparr>"

section \<open>The factory\<close>

text \<open>
  What the closure returned by \<open>defineUseDependencyInjection\<close> captures: the local
  variables \<open>initializer\<close> (a function or \<open>undefined\<close>), \<open>options\<close> and \<open>injectKey\<close>.
\<close>

record closure =
  initializer :: jsval
  options :: jsval
  injectKey :: jsval

text \<open>
  Lines 277 and 278: \<open>injectKey = options.key ?? Symbol()\<close>, and the closure is
  returned. \<open>Symbol()\<close> draws the next unused symbol number, which is threaded
  through; it is evaluated only when \<open>options.key\<close> is \<open>null\<close> or \<open>undefined\<close>.
\<close>

definition return_closure :: "jsval \<Rightarrow> jsval \<Rightarrow> nat \<Rightarrow> closure result \<times> nat" where
  "return_closure ini opts fresh =
     (if nullish (get_property opts ''key'')
      then (Inr \<lparr>initializer = ini, options = opts, injectKey = Sym fresh None\<rparr>, Suc fresh)
      else (Inr \<lparr>initializer = ini, options = opts,
                 injectKey = get_property opts ''key''\<rparr>, fresh))"

text \<open>
  \<open>defineUseDependencyInjection(arg0 = undefined, arg1 = undefined)\<close>, lines 249 to 278.
  An omitted argument is \<open>undefined\<close>; \<open>initializer\<close> starts as \<open>undefined\<close> and
  \<open>options\<close> as \<open>{}\<close>.
\<close>

definition defineUseDependencyInjection ::
  "jsval \<Rightarrow> jsval \<Rightarrow> nat \<Rightarrow> closure result \<times> nat" where
  "defineUseDependencyInjection arg0 arg1 fresh =
     (if \<not> nullish arg0 \<and> \<not> nullish arg1 then
        (if \<not> is_function arg0 then
           (Inl (TypeError ''[defineUseDependencyInjection] first argument must be a initializer function when two arguments are provided''), fresh)
         else return_closure arg0 arg1 fresh)
      else if \<not> nullish arg0 then
        (if is_function arg0 then return_closure arg0 (Obj []) fresh
         else return_closure Undefined arg0 fresh)
      else return_closure Undefined (Obj []) fresh)"

section \<open>The resolver\<close>

text \<open>
  \<open>overrideInitializer?.() ?? initializer?.()\<close>, line 286; the second parameter is
  the \<open>initializer\<close> of the closure.
\<close>

definition resolve_value :: "jsval \<Rightarrow> jsval \<Rightarrow> jsval result" where
  "resolve_value overrideInitializer boundInitializer =
     (case optional_call overrideInitializer of
        Inl e \<Rightarrow> Inl e
      | Inr v \<Rightarrow> if nullish v then optional_call boundInitializer else Inr v)"

text \<open>The message of line 283; \<open>CHR 0x27\<close> is the single quote.\<close>

definition not_a_function_message :: string where
  "not_a_function_message =
     ''[useDependencyInjection] second argument must be a function when mode is ''
       @ [CHR 0x27] @ ''provide'' @ [CHR 0x27]"

text \<open>The message of line 287\<close>

definition not_initialized :: "jsval \<Rightarrow> jsval" where
  "not_initialized k =
     Error (''UseDependencyInjection value `'' @ toString k @ ''` is not initialized'')"

text \<open>Lines 295 to 301\<close>

definition overrideOptions :: "jsval \<Rightarrow> jsval \<Rightarrow> jsval" where
  "overrideOptions arg0 arg1 =
     (if arg0 = Str ''inject'' then coalesce arg1 (Obj []) else coalesce arg0 (Obj []))"

text \<open>Lines 303 to 312\<close>

definition finalOptions :: "jsval \<Rightarrow> jsval \<Rightarrow> (string \<times> jsval) list result" where
  "finalOptions opts ov =
     (let fo = spread opts in
      case has_property ''injectDefault'' ov of
        Inl e \<Rightarrow> Inl e
      | Inr b1 \<Rightarrow>
          if b1 \<and> \<not> nullish (get_property ov ''injectDefault'') then
            Inr (set_property
                   (set_property fo ''injectDefault'' (get_property ov ''injectDefault''))
                   ''throwOnNoProvider'' Undefined)
          else
            (case has_property ''throwOnNoProvider'' ov of
               Inl e \<Rightarrow> Inl e
             | Inr b2 \<Rightarrow>
                 if b2 \<and> \<not> nullish (get_property ov ''throwOnNoProvider'') then
                   Inr (set_property
                          (set_property fo ''throwOnNoProvider''
                             (get_property ov ''throwOnNoProvider''))
                          ''injectDefault'' Undefined)
                 else Inr fo))"

text \<open>
  \<open>UseDependencyInjection($arg0, $arg1)\<close>, lines 278 to 324, in the host \<open>h\<close> of the
  component whose setup calls it. The result is the returned or thrown value and the
  host afterwards. \<open>'throwOnNoProvider' in finalOptions\<close> is membership among the
  names of the merged object, on which \<open>in\<close> cannot throw. \<open>throw f()\<close> throws
  what \<open>f\<close> returns, and what the call of \<open>f\<close> throws when it does not return.
\<close>

definition UseDependencyInjection ::
  "closure \<Rightarrow> jsval \<Rightarrow> jsval \<Rightarrow> host \<Rightarrow> jsval result \<times> host" where
  "UseDependencyInjection c arg0 arg1 h =
     (if arg0 = Str ''provide'' then
        (if \<not> nullish arg1 \<and> \<not> is_function arg1 then
           (Inl (TypeError not_a_function_message), h)
         else
           (case resolve_value arg1 (initializer c) of
              Inl e \<Rightarrow> (Inl e, h)
            | Inr v \<Rightarrow>
                if nullish v then (Inl (not_initialized (injectKey c)), h)
                else (Inr v, provide (injectKey c) v h)))
      else
        (case finalOptions (options c) (overrideOptions arg0 arg1) of
           Inl e \<Rightarrow> (Inl e, h)
         | Inr fo \<Rightarrow>
             if \<not> nullish (get_property (Obj fo) ''injectDefault'') then
               (inject_default (injectKey c) (get_property (Obj fo) ''injectDefault'') True h, h)
             else
               let v = inject (injectKey c) h in
               if nullish v \<and> ''throwOnNoProvider'' \<in> fst ` set fo
                    \<and> \<not> nullish (get_property (Obj fo) ''throwOnNoProvider'')
               then (case call (get_property (Obj fo) ''throwOnNoProvider'') of
                       Inl e \<Rightarrow> (Inl e, h)
                     | Inr e \<Rightarrow> (Inl e, h))
               else (Inr v, h)))"

section \<open>The default policy\<close>

text \<open>
  The spec's data model has one default policy per resolution: none, \<open>injectDefault\<close>
  or \<open>throwOnNoProvider\<close>.
\<close>

datatype policy = NoPolicy | InjectDefault jsval | ThrowOnNoProvider jsval

text \<open>
  The policy that an options object selects at lines 314 to 323: the first exit is
  taken when \<open>injectDefault != null\<close>, the throwing one when
  \<open>throwOnNoProvider\<close> is in the object and \<open>!= null\<close>.
\<close>

definition policy_of :: "jsval \<Rightarrow> policy" where
  "policy_of opts =
     (if \<not> nullish (get_property opts ''injectDefault'')
        then InjectDefault (get_property opts ''injectDefault'')
      else if \<not> nullish (get_property opts ''throwOnNoProvider'')
        then ThrowOnNoProvider (get_property opts ''throwOnNoProvider'')
      else NoPolicy)"

text \<open>
  The precedence rule in the spec's words: a non-absent \<open>injectDefault\<close> of the
  override wins, else a non-absent \<open>throwOnNoProvider\<close> of the override wins, else
  the policy of the base configuration applies.
\<close>

definition effective_policy :: "jsval \<Rightarrow> jsval \<Rightarrow> policy" where
  "effective_policy base ov =
     (if \<not> nullish (get_property ov ''injectDefault'')
        then InjectDefault (get_property ov ''injectDefault'')
      else if \<not> nullish (get_property ov ''throwOnNoProvider'')
        then ThrowOnNoProvider (get_property ov ''throwOnNoProvider'')
      else policy_of base)"

text \<open>
  The values on which \<open>in\<close> does not throw. A per-call override configuration is
  such a value, or is absent.
\<close>

fun is_object :: "jsval \<Rightarrow> bool" where
  "is_object (Obj _) = True"
| "is_object (Fn _) = True"
| "is_object (Error _) = True"
| "is_object (TypeError _) = True"
| "is_object _ = False"

text \<open>
  Whether a message contains a text, as \<open>String.prototype.includes\<close> and an
  unanchored pattern of the tests do: some suffix of the message starts with the text.
\<close>

fun starts_with :: "string \<Rightarrow> string \<Rightarrow> bool" where
  "starts_with s [] = True"
| "starts_with [] (x # xs) = False"
| "starts_with (y # ys) (x # xs) = (if x = y then starts_with ys xs else False)"

fun includes_text :: "string \<Rightarrow> string \<Rightarrow> bool" where
  "includes_text [] t = starts_with [] t"
| "includes_text (y # ys) t =
     (if starts_with (y # ys) t then True else includes_text ys t)"

text \<open>A host with no scope that attaches anything.\<close>

definition root :: host where
  "root = \<lparr>own = Map.empty, ancestors = []\<rparr>"

section \<open>Basic facts\<close>

lemma is_function_not_nullish: "is_function f \<Longrightarrow> \<not> nullish f"
  by (cases f) auto

lemma call_returns_function: "call f = Inr v \<Longrightarrow> is_function f"
  by (cases f rule: call.cases) auto

lemma optional_call_function: "is_function f \<Longrightarrow> optional_call f = call f"
  by (simp add: optional_call_def is_function_not_nullish)

lemma optional_call_nullish: "nullish f \<Longrightarrow> optional_call f = Inr Undefined"
  by (simp add: optional_call_def)

lemma optional_call_returns: "optional_call f = Inr v \<Longrightarrow> nullish f \<or> is_function f"
  by (auto simp add: optional_call_def dest: call_returns_function split: if_splits)

lemma resolve_value_returns:
  "resolve_value arg1 f = Inr v \<Longrightarrow> nullish arg1 \<or> is_function arg1"
  by (auto simp add: resolve_value_def dest: optional_call_returns split: sum.splits)

lemma get_set_property:
  "get_property (Obj (set_property ps n v)) m =
     (if m = n then v else get_property (Obj ps) m)"
  by (induction ps n v rule: set_property.induct) auto

lemma get_property_in: "\<not> nullish (get_property (Obj ps) n) \<Longrightarrow> n \<in> fst ` set ps"
  using map_of_eq_None_iff [of ps n] by (auto split: option.splits)

lemma has_property_object:
  assumes "is_object ov"
  shows "\<exists>b. has_property n ov = Inr b
           \<and> (b \<and> \<not> nullish (get_property ov n)) = (\<not> nullish (get_property ov n))"
proof (cases ov)
  case (Obj ps)
  then show ?thesis using get_property_in [of ps n] by auto
qed (use assms in auto)

section \<open>The factory's arguments\<close>

lemma return_closure_invariant:
  assumes "return_closure ini opts fresh = (Inr c, fresh')"
  shows "initializer c = ini \<and> options c = opts \<and> \<not> nullish (injectKey c)"
  using assms by (auto simp add: return_closure_def split: if_splits)

lemma factory_closure_invariant:
  assumes "defineUseDependencyInjection arg0 arg1 fresh = (Inr c, fresh')"
  shows "(initializer c = Undefined \<or> is_function (initializer c))
       \<and> \<not> nullish (injectKey c)"
  using assms
  by (auto simp add: defineUseDependencyInjection_def split: if_splits
        dest!: return_closure_invariant)

text \<open>
  C3, as amended. The test of line 256 is \<open>arg0 != null && arg1 != null\<close>, not the
  number of arguments. When both arguments are neither \<open>null\<close> nor \<open>undefined\<close> and
  the first is not a function, the factory throws a \<open>TypeError\<close> whose message is
  "[defineUseDependencyInjection] first argument must be a initializer function when two
  arguments are provided". When the first argument is a function, no error is raised,
  whatever the second argument is: the factory returns a resolver that closes over the
  first argument as initializer and over the second as options, or over \<open>{}\<close> when
  the second is \<open>null\<close> or \<open>undefined\<close>.
\<close>

theorem factory_two_arguments:
  "(\<not> nullish arg0 \<and> \<not> nullish arg1 \<and> \<not> is_function arg0 \<longrightarrow>
      defineUseDependencyInjection arg0 arg1 fresh =
        (Inl (TypeError ''[defineUseDependencyInjection] first argument must be a initializer function when two arguments are provided''), fresh))
 \<and> (is_function arg0 \<longrightarrow>
      fst (defineUseDependencyInjection arg0 arg1 fresh) =
        Inr \<lparr>initializer = arg0, options = coalesce arg1 (Obj []),
             injectKey = coalesce (get_property (coalesce arg1 (Obj [])) ''key'')
                           (Sym fresh None)\<rparr>)"
proof (intro conjI impI)
  assume "\<not> nullish arg0 \<and> \<not> nullish arg1 \<and> \<not> is_function arg0"
  then show "defineUseDependencyInjection arg0 arg1 fresh =
      (Inl (TypeError ''[defineUseDependencyInjection] first argument must be a initializer function when two arguments are provided''), fresh)"
    by (simp add: defineUseDependencyInjection_def)
next
  assume f: "is_function arg0"
  then have "\<not> nullish arg0" by (rule is_function_not_nullish)
  with f show "fst (defineUseDependencyInjection arg0 arg1 fresh) =
      Inr \<lparr>initializer = arg0, options = coalesce arg1 (Obj []),
           injectKey = coalesce (get_property (coalesce arg1 (Obj [])) ''key'')
                         (Sym fresh None)\<rparr>"
    by (simp add: defineUseDependencyInjection_def return_closure_def coalesce_def)
qed

theorem factory_two_arguments_witness:
  "\<not> nullish (Str ''initializer'') \<and> \<not> nullish (Obj [])
   \<and> \<not> is_function (Str ''initializer'')
   \<and> defineUseDependencyInjection (Str ''initializer'') (Obj []) 0 =
       (Inl (TypeError ''[defineUseDependencyInjection] first argument must be a initializer function when two arguments are provided''), 0)
   \<and> is_function (Fn (Returns (Str ''v'')))
   \<and> fst (defineUseDependencyInjection (Fn (Returns (Str ''v'')))
            (Obj [(''key'', Str ''k'')]) 0) =
       Inr \<lparr>initializer = Fn (Returns (Str ''v'')), options = Obj [(''key'', Str ''k'')],
            injectKey = Str ''k''\<rparr>
   \<and> fst (defineUseDependencyInjection (Fn (Returns (Str ''v''))) Null 0) =
       Inr \<lparr>initializer = Fn (Returns (Str ''v'')), options = Obj [],
            injectKey = Sym 0 None\<rparr>"
  using factory_two_arguments [of "Str ''initializer''" "Obj []" 0]
    factory_two_arguments [of "Fn (Returns (Str ''v''))" "Obj [(''key'', Str ''k'')]" 0]
    factory_two_arguments [of "Fn (Returns (Str ''v''))" Null 0]
  by (simp add: coalesce_def)

text \<open>
  C3 as stated fails, at three calls with two arguments. The call
  \<open>defineUseDependencyInjection(null, {})\<close> has a first argument that is not a
  function, and it returns a resolver. So does the call
  \<open>defineUseDependencyInjection('initializer', null)\<close>, which takes its first argument
  for the options. The call \<open>defineUseDependencyInjection('initializer', {})\<close> throws a
  \<open>TypeError\<close>, whose message does not contain the text "first argument must be an
  initializer function when two arguments are provided.": the message has "a initializer"
  and no full stop.
\<close>

theorem factory_two_arguments_counterexample:
  "\<not> is_function Null
   \<and> defineUseDependencyInjection Null (Obj []) 0 =
       (Inr \<lparr>initializer = Undefined, options = Obj [], injectKey = Sym 0 None\<rparr>, Suc 0)
   \<and> \<not> is_function (Str ''initializer'')
   \<and> defineUseDependencyInjection (Str ''initializer'') Null 0 =
       (Inr \<lparr>initializer = Undefined, options = Str ''initializer'',
             injectKey = Sym 0 None\<rparr>, Suc 0)
   \<and> defineUseDependencyInjection (Str ''initializer'') (Obj []) 0 =
       (Inl (TypeError ''[defineUseDependencyInjection] first argument must be a initializer function when two arguments are provided''), 0)
   \<and> \<not> includes_text
         ''[defineUseDependencyInjection] first argument must be a initializer function when two arguments are provided''
         ''first argument must be an initializer function when two arguments are provided.''"
  by (simp add: defineUseDependencyInjection_def return_closure_def)

text \<open>
  C9. When the first argument is \<open>null\<close> or \<open>undefined\<close>, the factory does what it
  does without any argument, whatever the second argument is: it throws nothing, binds
  no initializer, keeps empty options and draws a fresh symbol as key.
\<close>

theorem factory_absent_first_argument:
  assumes "nullish arg0"
  shows "defineUseDependencyInjection arg0 arg1 fresh =
           defineUseDependencyInjection Undefined Undefined fresh
       \<and> defineUseDependencyInjection arg0 arg1 fresh =
           (Inr \<lparr>initializer = Undefined, options = Obj [], injectKey = Sym fresh None\<rparr>,
            Suc fresh)"
  using assms by (simp add: defineUseDependencyInjection_def return_closure_def)

theorem factory_absent_first_argument_witness:
  "nullish Null
   \<and> defineUseDependencyInjection Null
       (Obj [(''key'', Str ''k''), (''injectDefault'', Str ''d'')]) 7 =
       defineUseDependencyInjection Undefined Undefined 7
   \<and> defineUseDependencyInjection Null
       (Obj [(''key'', Str ''k''), (''injectDefault'', Str ''d'')]) 7 =
       (Inr \<lparr>initializer = Undefined, options = Obj [], injectKey = Sym 7 None\<rparr>, Suc 7)"
  using factory_absent_first_argument
    [of Null "Obj [(''key'', Str ''k''), (''injectDefault'', Str ''d'')]" 7]
  by (simp add: defineUseDependencyInjection_def return_closure_def)

section \<open>Publish mode\<close>

lemma provide_mode_resolved:
  assumes "resolve_value arg1 (initializer c) = Inr v"
  shows "UseDependencyInjection c (Str ''provide'') arg1 h =
           (if nullish v then (Inl (not_initialized (injectKey c)), h)
            else (Inr v, provide (injectKey c) v h))"
  using assms resolve_value_returns [OF assms]
  by (auto simp add: UseDependencyInjection_def)

text \<open>
  C8. In publish mode a second argument that is neither \<open>null\<close> nor \<open>undefined\<close> and
  is not a function makes the call throw the \<open>TypeError\<close> of line 283, whatever the bound
  initializer is (also one that would throw if it were called), and the host is left as
  it was.
\<close>

theorem provide_override_not_function:
  assumes "\<not> nullish arg1" and "\<not> is_function arg1"
  shows "UseDependencyInjection c (Str ''provide'') arg1 h =
           (Inl (TypeError (''[useDependencyInjection] second argument must be a function when mode is '' @ [CHR 0x27] @ ''provide'' @ [CHR 0x27])), h)"
  using assms by (simp add: UseDependencyInjection_def not_a_function_message_def)

theorem provide_override_not_function_witness:
  "\<not> nullish (Str ''overrideInitializer'') \<and> \<not> is_function (Str ''overrideInitializer'')
   \<and> UseDependencyInjection
        \<lparr>initializer = Fn (Throws (Error ''called'')), options = Obj [], injectKey = Sym 0 None\<rparr>
        (Str ''provide'') (Str ''overrideInitializer'') root =
       (Inl (TypeError (''[useDependencyInjection] second argument must be a function when mode is '' @ [CHR 0x27] @ ''provide'' @ [CHR 0x27])), root)"
  using provide_override_not_function [of "Str ''overrideInitializer''"
      "\<lparr>initializer = Fn (Throws (Error ''called'')), options = Obj [], injectKey = Sym 0 None\<rparr>" root]
  by simp

text \<open>
  C2, as amended. The value to publish is resolved in this order. An override
  initializer, when given, is called and its result, when it is neither \<open>null\<close> nor
  \<open>undefined\<close>, is the value that is published. Otherwise, that is when no override
  initializer is given or when its result is \<open>null\<close> or \<open>undefined\<close>, the bound
  initializer, when there is one, is called and its result is published. With no bound
  initializer either, no value is resolved and the call fails as not initialized.
\<close>

theorem provide_resolution_order:
  "(is_function arg1 \<and> call arg1 = Inr v \<and> \<not> nullish v \<longrightarrow>
      resolve_value arg1 (initializer c) = Inr v
      \<and> UseDependencyInjection c (Str ''provide'') arg1 h =
          (Inr v, provide (injectKey c) v h))
 \<and> ((nullish arg1 \<or> (is_function arg1 \<and> call arg1 = Inr w \<and> nullish w))
      \<and> is_function (initializer c) \<and> call (initializer c) = Inr v \<and> \<not> nullish v \<longrightarrow>
      resolve_value arg1 (initializer c) = Inr v
      \<and> UseDependencyInjection c (Str ''provide'') arg1 h =
          (Inr v, provide (injectKey c) v h))
 \<and> ((nullish arg1 \<or> (is_function arg1 \<and> call arg1 = Inr w \<and> nullish w))
      \<and> nullish (initializer c) \<longrightarrow>
      resolve_value arg1 (initializer c) = Inr Undefined
      \<and> UseDependencyInjection c (Str ''provide'') arg1 h =
          (Inl (not_initialized (injectKey c)), h))"
proof (intro conjI impI)
  assume a: "is_function arg1 \<and> call arg1 = Inr v \<and> \<not> nullish v"
  then show r: "resolve_value arg1 (initializer c) = Inr v"
    by (simp add: resolve_value_def optional_call_function)
  from a show "UseDependencyInjection c (Str ''provide'') arg1 h =
      (Inr v, provide (injectKey c) v h)"
    using provide_mode_resolved [OF r] by simp
next
  assume a: "(nullish arg1 \<or> (is_function arg1 \<and> call arg1 = Inr w \<and> nullish w))
      \<and> is_function (initializer c) \<and> call (initializer c) = Inr v \<and> \<not> nullish v"
  then show r: "resolve_value arg1 (initializer c) = Inr v"
    by (auto simp add: resolve_value_def optional_call_function optional_call_nullish)
  from a show "UseDependencyInjection c (Str ''provide'') arg1 h =
      (Inr v, provide (injectKey c) v h)"
    using provide_mode_resolved [OF r] by auto
next
  assume a: "(nullish arg1 \<or> (is_function arg1 \<and> call arg1 = Inr w \<and> nullish w))
      \<and> nullish (initializer c)"
  then show r: "resolve_value arg1 (initializer c) = Inr Undefined"
    by (auto simp add: resolve_value_def optional_call_function optional_call_nullish)
  from a show "UseDependencyInjection c (Str ''provide'') arg1 h =
      (Inl (not_initialized (injectKey c)), h)"
    using provide_mode_resolved [OF r] by auto
qed

theorem provide_resolution_order_witness:
  "(is_function (Fn (Returns (Str ''override'')))
    \<and> call (Fn (Returns (Str ''override''))) = Inr (Str ''override'')
    \<and> \<not> nullish (Str ''override'')
    \<and> UseDependencyInjection
        \<lparr>initializer = Fn (Returns (Str ''bound'')), options = Obj [], injectKey = Str ''k''\<rparr>
        (Str ''provide'') (Fn (Returns (Str ''override''))) root =
        (Inr (Str ''override''), provide (Str ''k'') (Str ''override'') root))
 \<and> (nullish Undefined
    \<and> is_function (Fn (Returns (Str ''bound'')))
    \<and> call (Fn (Returns (Str ''bound''))) = Inr (Str ''bound'')
    \<and> \<not> nullish (Str ''bound'')
    \<and> UseDependencyInjection
        \<lparr>initializer = Fn (Returns (Str ''bound'')), options = Obj [], injectKey = Str ''k''\<rparr>
        (Str ''provide'') Undefined root =
        (Inr (Str ''bound''), provide (Str ''k'') (Str ''bound'') root))
 \<and> (nullish Undefined
    \<and> UseDependencyInjection
        \<lparr>initializer = Undefined, options = Obj [], injectKey = Str ''k''\<rparr>
        (Str ''provide'') Undefined root =
        (Inl (not_initialized (Str ''k'')), root))"
  using
    provide_resolution_order [of "Fn (Returns (Str ''override''))" "Str ''override''"
      "\<lparr>initializer = Fn (Returns (Str ''bound'')), options = Obj [], injectKey = Str ''k''\<rparr>"
      root Undefined]
    provide_resolution_order [of Undefined "Str ''bound''"
      "\<lparr>initializer = Fn (Returns (Str ''bound'')), options = Obj [], injectKey = Str ''k''\<rparr>"
      root Undefined]
    provide_resolution_order [of Undefined "Str ''bound''"
      "\<lparr>initializer = Undefined, options = Obj [], injectKey = Str ''k''\<rparr>"
      root Undefined]
  by simp

text \<open>
  C2 as stated fails: an override initializer is given and returns \<open>undefined\<close>, yet
  the value that is published is the result of the bound initializer.
\<close>

theorem provide_resolution_order_counterexample:
  "is_function (Fn (Returns Undefined))
   \<and> call (Fn (Returns Undefined)) = Inr Undefined
   \<and> UseDependencyInjection
        \<lparr>initializer = Fn (Returns (Str ''bound'')), options = Obj [], injectKey = Str ''k''\<rparr>
        (Str ''provide'') (Fn (Returns Undefined)) root =
       (Inr (Str ''bound''), root\<lparr>own := (own root)(Str ''k'' \<mapsto> Str ''bound'')\<rparr>)"
  by (simp add: UseDependencyInjection_def resolve_value_def optional_call_def provide_def)

text \<open>
  C4. In publish mode, when the value resolved at line 286 is \<open>null\<close> or
  \<open>undefined\<close>, and so whenever there is neither an override nor a bound initializer,
  the call throws the error "UseDependencyInjection value `KEY` is not initialized", with
  the string form of the binding key for KEY, and the host is left as it was. When the
  resolved value is neither, it is attached to the binding key in the scope of the
  current component and returned.
\<close>

theorem provide_not_initialized:
  "(resolve_value arg1 (initializer c) = Inr v \<and> nullish v \<longrightarrow>
      UseDependencyInjection c (Str ''provide'') arg1 h =
        (Inl (Error (''UseDependencyInjection value `'' @ toString (injectKey c)
                       @ ''` is not initialized'')), h))
 \<and> (nullish arg1 \<and> nullish (initializer c) \<longrightarrow>
      UseDependencyInjection c (Str ''provide'') arg1 h =
        (Inl (Error (''UseDependencyInjection value `'' @ toString (injectKey c)
                       @ ''` is not initialized'')), h))
 \<and> (resolve_value arg1 (initializer c) = Inr v \<and> \<not> nullish v \<longrightarrow>
      UseDependencyInjection c (Str ''provide'') arg1 h =
        (Inr v, h\<lparr>own := (own h)(injectKey c \<mapsto> v)\<rparr>))"
proof (intro conjI impI)
  assume "resolve_value arg1 (initializer c) = Inr v \<and> nullish v"
  then show "UseDependencyInjection c (Str ''provide'') arg1 h =
      (Inl (Error (''UseDependencyInjection value `'' @ toString (injectKey c)
                     @ ''` is not initialized'')), h)"
    using provide_mode_resolved [of arg1 c v h] by (simp add: not_initialized_def)
next
  assume a: "nullish arg1 \<and> nullish (initializer c)"
  then have "resolve_value arg1 (initializer c) = Inr Undefined"
    by (simp add: resolve_value_def optional_call_nullish)
  then show "UseDependencyInjection c (Str ''provide'') arg1 h =
      (Inl (Error (''UseDependencyInjection value `'' @ toString (injectKey c)
                     @ ''` is not initialized'')), h)"
    using provide_mode_resolved [of arg1 c Undefined h] by (simp add: not_initialized_def)
next
  assume "resolve_value arg1 (initializer c) = Inr v \<and> \<not> nullish v"
  then show "UseDependencyInjection c (Str ''provide'') arg1 h =
      (Inr v, h\<lparr>own := (own h)(injectKey c \<mapsto> v)\<rparr>)"
    using provide_mode_resolved [of arg1 c v h] by (simp add: provide_def)
qed

theorem provide_not_initialized_witness:
  "(resolve_value (Fn (Returns Null)) Undefined = Inr Undefined \<and> nullish Undefined
    \<and> UseDependencyInjection
        \<lparr>initializer = Undefined, options = Obj [], injectKey = Sym 3 (Some ''test'')\<rparr>
        (Str ''provide'') (Fn (Returns Null)) root =
        (Inl (Error ''UseDependencyInjection value `Symbol(test)` is not initialized''), root))
 \<and> (nullish Undefined
    \<and> nullish (initializer \<lparr>initializer = Undefined, options = Obj [], injectKey = Sym 3 None\<rparr>)
    \<and> UseDependencyInjection
        \<lparr>initializer = Undefined, options = Obj [], injectKey = Sym 3 None\<rparr>
        (Str ''provide'') Undefined root =
        (Inl (Error ''UseDependencyInjection value `Symbol()` is not initialized''), root))
 \<and> (resolve_value Undefined (Fn (Returns (Str ''bound''))) = Inr (Str ''bound'')
    \<and> \<not> nullish (Str ''bound'')
    \<and> UseDependencyInjection
        \<lparr>initializer = Fn (Returns (Str ''bound'')), options = Obj [], injectKey = Str ''k''\<rparr>
        (Str ''provide'') Undefined root =
        (Inr (Str ''bound''), root\<lparr>own := (own root)(Str ''k'' \<mapsto> Str ''bound'')\<rparr>))"
  using
    provide_not_initialized [of "Fn (Returns Null)"
      "\<lparr>initializer = Undefined, options = Obj [], injectKey = Sym 3 (Some ''test'')\<rparr>"
      Undefined root]
    provide_not_initialized [of Undefined
      "\<lparr>initializer = Undefined, options = Obj [], injectKey = Sym 3 None\<rparr>" Null root]
    provide_not_initialized [of Undefined
      "\<lparr>initializer = Fn (Returns (Str ''bound'')), options = Obj [], injectKey = Str ''k''\<rparr>"
      "Str ''bound''" root]
  by (simp add: resolve_value_def optional_call_def)

text \<open>
  C10. In publish mode, when the override initializer is a function whose call returns
  \<open>null\<close> or \<open>undefined\<close> and the bound initializer returns a value that is neither,
  the call does not fail as not initialized: the result of the bound initializer is
  published under the binding key and returned.
\<close>

theorem provide_override_absent_falls_back:
  assumes "is_function arg1" and "call arg1 = Inr w" and "nullish w"
    and "call (initializer c) = Inr v" and "\<not> nullish v"
  shows "UseDependencyInjection c (Str ''provide'') arg1 h =
           (Inr v, provide (injectKey c) v h)"
proof -
  have "is_function (initializer c)"
    using assms(4) by (rule call_returns_function)
  then have "resolve_value arg1 (initializer c) = Inr v"
    using assms by (simp add: resolve_value_def optional_call_function)
  then show ?thesis
    using provide_mode_resolved [of arg1 c v h] assms(5) by simp
qed

theorem provide_override_absent_falls_back_witness:
  "is_function (Fn (Returns Undefined)) \<and> call (Fn (Returns Undefined)) = Inr Undefined
   \<and> nullish Undefined
   \<and> call (initializer \<lparr>initializer = Fn (Returns (Str ''bound'')), options = Obj [],
                        injectKey = Str ''k''\<rparr>) = Inr (Str ''bound'')
   \<and> \<not> nullish (Str ''bound'')
   \<and> UseDependencyInjection
        \<lparr>initializer = Fn (Returns (Str ''bound'')), options = Obj [], injectKey = Str ''k''\<rparr>
        (Str ''provide'') (Fn (Returns Undefined)) root =
       (Inr (Str ''bound''), provide (Str ''k'') (Str ''bound'') root)"
  using provide_override_absent_falls_back [of "Fn (Returns Undefined)" Undefined
      "\<lparr>initializer = Fn (Returns (Str ''bound'')), options = Obj [], injectKey = Str ''k''\<rparr>"
      "Str ''bound''" root]
  by simp

section \<open>Consume mode\<close>

lemma has_property_returns: "has_property n ov = Inr b \<Longrightarrow> is_object ov"
  by (cases ov) auto

lemma digit_range: "d < 10 \<Longrightarrow> digit d \<in> set decimal_digits"
  unfolding digit_def by (rule nth_mem) (simp add: decimal_digits_def)

lemma index_name_digits: "set (index_name n) \<subseteq> set decimal_digits"
proof (induction n rule: index_name.induct)
  case (1 n)
  show ?case
  proof (cases "n < 10")
    case True
    then show ?thesis using digit_range [of n] by (subst index_name.simps) simp
  next
    case False
    have "n mod 10 < 10" by simp
    then have "digit (n mod 10) \<in> set decimal_digits" by (rule digit_range)
    then show ?thesis using 1 False by (subst index_name.simps) simp
  qed
qed

lemma indexed_names: "n \<in> fst ` set (indexed i s) \<Longrightarrow> set n \<subseteq> set decimal_digits"
  by (induction i s rule: indexed.induct) (use index_name_digits in auto)

lemma get_property_spread:
  assumes "ch \<in> set n" and "ch \<notin> set decimal_digits"
  shows "get_property (Obj (spread opts)) n = get_property opts n"
proof (cases opts)
  case (Str s)
  have "n \<notin> fst ` set (indexed 0 s)"
    using assms indexed_names [of n 0 s] by blast
  then have "map_of (indexed 0 s) n = None"
    by (simp add: map_of_eq_None_iff)
  then show ?thesis using Str by simp
qed auto

lemma get_injectDefault_spread:
  "get_property (Obj (spread opts)) ''injectDefault'' = get_property opts ''injectDefault''"
  by (rule get_property_spread [of "CHR ''i''"]) (simp_all add: decimal_digits_def)

lemma get_throwOnNoProvider_spread:
  "get_property (Obj (spread opts)) ''throwOnNoProvider'' =
     get_property opts ''throwOnNoProvider''"
  by (rule get_property_spread [of "CHR ''t''"]) (simp_all add: decimal_digits_def)

lemma finalOptions_object:
  assumes "is_object ov"
  shows "finalOptions opts ov =
     Inr (if \<not> nullish (get_property ov ''injectDefault'') then
            set_property
              (set_property (spread opts) ''injectDefault'' (get_property ov ''injectDefault''))
              ''throwOnNoProvider'' Undefined
          else if \<not> nullish (get_property ov ''throwOnNoProvider'') then
            set_property
              (set_property (spread opts) ''throwOnNoProvider''
                 (get_property ov ''throwOnNoProvider''))
              ''injectDefault'' Undefined
          else spread opts)"
proof -
  obtain b1 where b1: "has_property ''injectDefault'' ov = Inr b1"
    "(b1 \<and> \<not> nullish (get_property ov ''injectDefault'')) =
       (\<not> nullish (get_property ov ''injectDefault''))"
    using has_property_object [OF assms] by blast
  obtain b2 where b2: "has_property ''throwOnNoProvider'' ov = Inr b2"
    "(b2 \<and> \<not> nullish (get_property ov ''throwOnNoProvider'')) =
       (\<not> nullish (get_property ov ''throwOnNoProvider''))"
    using has_property_object [OF assms] by blast
  show ?thesis
    unfolding finalOptions_def Let_def using b1 b2 by auto
qed

lemma finalOptions_returns: "finalOptions opts ov = Inr fo \<Longrightarrow> is_object ov"
  by (auto simp add: finalOptions_def Let_def split: sum.splits dest: has_property_returns)

lemma policy_of_finalOptions:
  assumes "finalOptions opts ov = Inr fo"
  shows "policy_of (Obj fo) = effective_policy opts ov"
proof -
  have "is_object ov" using assms by (rule finalOptions_returns)
  from finalOptions_object [OF this, of opts] assms show ?thesis
    by (auto simp add: policy_of_def effective_policy_def get_set_property
          get_injectDefault_spread get_throwOnNoProvider_spread
          simp del: get_property.simps split: if_splits)
qed

lemma consume_by_policy:
  assumes "arg0 \<noteq> Str ''provide''"
    and "finalOptions (options c) (overrideOptions arg0 arg1) = Inr fo"
  shows "UseDependencyInjection c arg0 arg1 h =
    (case policy_of (Obj fo) of
       InjectDefault d \<Rightarrow> (inject_default (injectKey c) d True h, h)
     | ThrowOnNoProvider f \<Rightarrow>
         if nullish (inject (injectKey c) h)
         then (Inl (case call f of Inl e \<Rightarrow> e | Inr e \<Rightarrow> e), h)
         else (Inr (inject (injectKey c) h), h)
     | NoPolicy \<Rightarrow> (Inr (inject (injectKey c) h), h))"
proof -
  have in_fo: "\<not> nullish (get_property (Obj fo) ''throwOnNoProvider'')
      \<Longrightarrow> ''throwOnNoProvider'' \<in> fst ` set fo"
    by (rule get_property_in)
  show ?thesis
    using assms in_fo
    by (auto simp add: UseDependencyInjection_def policy_of_def Let_def
          simp del: get_property.simps split: sum.splits)
qed


lemma nearest_append:
  "\<forall>s \<in> set mids. s k = None \<Longrightarrow> nearest (mids @ ss) k = nearest ss k"
  by (induction mids) auto

lemma provide_mode_returns:
  assumes "UseDependencyInjection c (Str ''provide'') arg1 h = (Inr v, h')"
  shows "\<not> nullish v \<and> h' = provide (injectKey c) v h"
  using assms
  by (auto simp add: UseDependencyInjection_def split: if_splits sum.splits)

lemma consume_found:
  assumes "arg0 \<noteq> Str ''provide''" and "is_object (overrideOptions arg0 arg1)"
    and "nearest (ancestors h) (injectKey c) = Some v" and "\<not> nullish v"
  shows "UseDependencyInjection c arg0 arg1 h = (Inr v, h)"
proof -
  obtain fo where fo: "finalOptions (options c) (overrideOptions arg0 arg1) = Inr fo"
    using finalOptions_object [OF assms(2)] by blast
  show ?thesis
    using consume_by_policy [OF assms(1) fo, of h] assms(3,4)
    by (simp add: inject_def inject_default_def split: policy.splits)
qed

lemma published_visible_in_child:
  assumes "UseDependencyInjection c (Str ''provide'') parg1 h = (Inr v, h')"
    and "arg0 \<noteq> Str ''provide''" and "is_object (overrideOptions arg0 arg1)"
  shows "UseDependencyInjection c arg0 arg1 (child h') = (Inr v, child h')"
proof -
  have "\<not> nullish v" and "own h' (injectKey c) = Some v"
    using provide_mode_returns [OF assms(1)] by (simp_all add: provide_def)
  then show ?thesis
    using consume_found [OF assms(2,3), of "child h'" c v] by (simp add: child_def)
qed

text \<open>
  C1. In a consume-mode call whose override configuration is an object (or is absent,
  which makes it \<open>{}\<close>), the merged options of lines 303 to 312 select the policy that
  the precedence rule gives, and the call does what that policy says. A non-absent
  \<open>injectDefault\<close> of the override is the merged \<open>injectDefault\<close> and the merged
  \<open>throwOnNoProvider\<close> is cleared; else a non-absent \<open>throwOnNoProvider\<close> of the
  override is the merged one and the merged \<open>injectDefault\<close> is cleared; else the
  merged options are the base options. In particular, with a base \<open>injectDefault\<close>,
  an override \<open>throwOnNoProvider\<close> that returns \<open>e2\<close> and no publisher, the call
  throws \<open>e2\<close>.
\<close>

theorem effective_policy_merge:
  "(arg0 \<noteq> Str ''provide''
    \<and> finalOptions (options c) (overrideOptions arg0 arg1) = Inr fo \<longrightarrow>
      policy_of (Obj fo) = effective_policy (options c) (overrideOptions arg0 arg1)
      \<and> UseDependencyInjection c arg0 arg1 h =
          (case effective_policy (options c) (overrideOptions arg0 arg1) of
             InjectDefault d \<Rightarrow> (inject_default (injectKey c) d True h, h)
           | ThrowOnNoProvider f \<Rightarrow>
               if nullish (inject (injectKey c) h)
               then (Inl (case call f of Inl e \<Rightarrow> e | Inr e \<Rightarrow> e), h)
               else (Inr (inject (injectKey c) h), h)
           | NoPolicy \<Rightarrow> (Inr (inject (injectKey c) h), h))
      \<and> (\<not> nullish (get_property (overrideOptions arg0 arg1) ''injectDefault'') \<longrightarrow>
            get_property (Obj fo) ''injectDefault'' =
              get_property (overrideOptions arg0 arg1) ''injectDefault''
            \<and> get_property (Obj fo) ''throwOnNoProvider'' = Undefined)
      \<and> (nullish (get_property (overrideOptions arg0 arg1) ''injectDefault'')
           \<and> \<not> nullish (get_property (overrideOptions arg0 arg1) ''throwOnNoProvider'') \<longrightarrow>
            get_property (Obj fo) ''throwOnNoProvider'' =
              get_property (overrideOptions arg0 arg1) ''throwOnNoProvider''
            \<and> get_property (Obj fo) ''injectDefault'' = Undefined)
      \<and> (nullish (get_property (overrideOptions arg0 arg1) ''injectDefault'')
           \<and> nullish (get_property (overrideOptions arg0 arg1) ''throwOnNoProvider'') \<longrightarrow>
            fo = spread (options c)))
 \<and> (arg0 \<noteq> Str ''provide'' \<and> is_object (overrideOptions arg0 arg1)
    \<and> \<not> nullish (get_property (options c) ''injectDefault'')
    \<and> nullish (get_property (overrideOptions arg0 arg1) ''injectDefault'')
    \<and> get_property (overrideOptions arg0 arg1) ''throwOnNoProvider'' = Fn (Returns e2)
    \<and> nearest (ancestors h) (injectKey c) = None \<longrightarrow>
      UseDependencyInjection c arg0 arg1 h = (Inl e2, h))"
proof (intro conjI impI)
  assume a: "arg0 \<noteq> Str ''provide''
    \<and> finalOptions (options c) (overrideOptions arg0 arg1) = Inr fo"
  then have fo: "finalOptions (options c) (overrideOptions arg0 arg1) = Inr fo" by simp
  have ob: "is_object (overrideOptions arg0 arg1)" using fo by (rule finalOptions_returns)
  show p: "policy_of (Obj fo) = effective_policy (options c) (overrideOptions arg0 arg1)"
    using fo by (rule policy_of_finalOptions)
  show "UseDependencyInjection c arg0 arg1 h =
          (case effective_policy (options c) (overrideOptions arg0 arg1) of
             InjectDefault d \<Rightarrow> (inject_default (injectKey c) d True h, h)
           | ThrowOnNoProvider f \<Rightarrow>
               if nullish (inject (injectKey c) h)
               then (Inl (case call f of Inl e \<Rightarrow> e | Inr e \<Rightarrow> e), h)
               else (Inr (inject (injectKey c) h), h)
           | NoPolicy \<Rightarrow> (Inr (inject (injectKey c) h), h))"
    using consume_by_policy [of arg0 c arg1 fo h] a p by simp
  {
    assume "\<not> nullish (get_property (overrideOptions arg0 arg1) ''injectDefault'')"
    then have "fo = set_property
              (set_property (spread (options c)) ''injectDefault''
                 (get_property (overrideOptions arg0 arg1) ''injectDefault''))
              ''throwOnNoProvider'' Undefined"
      using finalOptions_object [OF ob, of "options c"] fo by simp
    then show "get_property (Obj fo) ''injectDefault'' =
              get_property (overrideOptions arg0 arg1) ''injectDefault''"
      and "get_property (Obj fo) ''throwOnNoProvider'' = Undefined"
      by (simp_all add: get_set_property del: get_property.simps)
  }
  {
    assume "nullish (get_property (overrideOptions arg0 arg1) ''injectDefault'')
           \<and> \<not> nullish (get_property (overrideOptions arg0 arg1) ''throwOnNoProvider'')"
    then have "fo = set_property
              (set_property (spread (options c)) ''throwOnNoProvider''
                 (get_property (overrideOptions arg0 arg1) ''throwOnNoProvider''))
              ''injectDefault'' Undefined"
      using finalOptions_object [OF ob, of "options c"] fo by simp
    then show "get_property (Obj fo) ''throwOnNoProvider'' =
              get_property (overrideOptions arg0 arg1) ''throwOnNoProvider''"
      and "get_property (Obj fo) ''injectDefault'' = Undefined"
      by (simp_all add: get_set_property del: get_property.simps)
  }
  {
    assume "nullish (get_property (overrideOptions arg0 arg1) ''injectDefault'')
           \<and> nullish (get_property (overrideOptions arg0 arg1) ''throwOnNoProvider'')"
    then show "fo = spread (options c)"
      using finalOptions_object [OF ob, of "options c"] fo by simp
  }
next
  assume a: "arg0 \<noteq> Str ''provide'' \<and> is_object (overrideOptions arg0 arg1)
    \<and> \<not> nullish (get_property (options c) ''injectDefault'')
    \<and> nullish (get_property (overrideOptions arg0 arg1) ''injectDefault'')
    \<and> get_property (overrideOptions arg0 arg1) ''throwOnNoProvider'' = Fn (Returns e2)
    \<and> nearest (ancestors h) (injectKey c) = None"
  then obtain fo' where fo': "finalOptions (options c) (overrideOptions arg0 arg1) = Inr fo'"
    using finalOptions_object [of "overrideOptions arg0 arg1" "options c"] by blast
  have "effective_policy (options c) (overrideOptions arg0 arg1) =
      ThrowOnNoProvider (Fn (Returns e2))"
    using a by (simp add: effective_policy_def)
  then show "UseDependencyInjection c arg0 arg1 h = (Inl e2, h)"
    using consume_by_policy [of arg0 c arg1 fo' h] policy_of_finalOptions [OF fo'] fo' a
    by (simp add: inject_def)
qed

theorem effective_policy_merge_witness:
  "(Obj [(''throwOnNoProvider'', Fn (Returns (Error ''E2'')))] \<noteq> Str ''provide''
    \<and> finalOptions (Obj [(''injectDefault'', Fn (Returns (Str ''D1'')))])
         (Obj [(''throwOnNoProvider'', Fn (Returns (Error ''E2'')))]) =
        Inr [(''injectDefault'', Undefined), (''throwOnNoProvider'', Fn (Returns (Error ''E2'')))]
    \<and> is_object (Obj [(''throwOnNoProvider'', Fn (Returns (Error ''E2'')))])
    \<and> nearest (ancestors root) (Str ''k'') = None
    \<and> UseDependencyInjection
         \<lparr>initializer = Undefined,
            options = Obj [(''injectDefault'', Fn (Returns (Str ''D1'')))],
            injectKey = Str ''k''\<rparr>
         (Obj [(''throwOnNoProvider'', Fn (Returns (Error ''E2'')))]) Undefined root =
        (Inl (Error ''E2''), root))
 \<and> (finalOptions (Obj [(''throwOnNoProvider'', Fn (Returns (Error ''E1'')))])
         (Obj [(''injectDefault'', Fn (Returns (Str ''D2'')))]) =
        Inr [(''throwOnNoProvider'', Undefined), (''injectDefault'', Fn (Returns (Str ''D2'')))]
    \<and> UseDependencyInjection
         \<lparr>initializer = Undefined,
            options = Obj [(''throwOnNoProvider'', Fn (Returns (Error ''E1'')))],
            injectKey = Str ''k''\<rparr>
         (Str ''inject'') (Obj [(''injectDefault'', Fn (Returns (Str ''D2'')))]) root =
        (Inr (Str ''D2''), root))
 \<and> (finalOptions (Obj [(''throwOnNoProvider'', Fn (Returns (Error ''E1'')))]) (Obj []) =
        Inr [(''throwOnNoProvider'', Fn (Returns (Error ''E1'')))]
    \<and> UseDependencyInjection
         \<lparr>initializer = Undefined,
            options = Obj [(''throwOnNoProvider'', Fn (Returns (Error ''E1'')))],
            injectKey = Str ''k''\<rparr>
         Undefined Undefined root =
        (Inl (Error ''E1''), root))"
  using
    effective_policy_merge
      [of "Obj [(''throwOnNoProvider'', Fn (Returns (Error ''E2'')))]"
          "\<lparr>initializer = Undefined,
             options = Obj [(''injectDefault'', Fn (Returns (Str ''D1'')))],
             injectKey = Str ''k''\<rparr>"
          Undefined
          "[(''injectDefault'', Undefined), (''throwOnNoProvider'', Fn (Returns (Error ''E2'')))]"
          root "Error ''E2''"]
    effective_policy_merge
      [of "Str ''inject''"
          "\<lparr>initializer = Undefined,
             options = Obj [(''throwOnNoProvider'', Fn (Returns (Error ''E1'')))],
             injectKey = Str ''k''\<rparr>"
          "Obj [(''injectDefault'', Fn (Returns (Str ''D2'')))]"
          "[(''throwOnNoProvider'', Undefined), (''injectDefault'', Fn (Returns (Str ''D2'')))]"
          root Undefined]
    effective_policy_merge
      [of Undefined
          "\<lparr>initializer = Undefined,
             options = Obj [(''throwOnNoProvider'', Fn (Returns (Error ''E1'')))],
             injectKey = Str ''k''\<rparr>"
          Undefined
          "[(''throwOnNoProvider'', Fn (Returns (Error ''E1'')))]"
          root Undefined]
  by (simp add: finalOptions_def overrideOptions_def coalesce_def root_def
        effective_policy_def policy_of_def inject_default_def inject_def)

text \<open>
  C5, as amended. In a consume-mode call whose effective policy is \<open>injectDefault\<close>,
  the call throws no error of its own. A value attached to the binding key by an ancestor
  is returned. With none, a default that is not a function is returned as it is, and a
  default that is a function is called: what it returns is returned, and what it throws
  is thrown by the call.
\<close>

theorem inject_default_policy:
  assumes "arg0 \<noteq> Str ''provide''" and "is_object (overrideOptions arg0 arg1)"
    and "effective_policy (options c) (overrideOptions arg0 arg1) = InjectDefault d"
  shows "(nearest (ancestors h) (injectKey c) = Some v \<longrightarrow>
            UseDependencyInjection c arg0 arg1 h = (Inr v, h))
       \<and> (nearest (ancestors h) (injectKey c) = None \<and> \<not> is_function d \<longrightarrow>
            UseDependencyInjection c arg0 arg1 h = (Inr d, h))
       \<and> (nearest (ancestors h) (injectKey c) = None \<and> d = Fn (Returns v) \<longrightarrow>
            UseDependencyInjection c arg0 arg1 h = (Inr v, h))
       \<and> (nearest (ancestors h) (injectKey c) = None \<and> d = Fn (Throws e) \<longrightarrow>
            UseDependencyInjection c arg0 arg1 h = (Inl e, h))"
proof -
  obtain fo where fo: "finalOptions (options c) (overrideOptions arg0 arg1) = Inr fo"
    using finalOptions_object [OF assms(2)] by blast
  have "UseDependencyInjection c arg0 arg1 h = (inject_default (injectKey c) d True h, h)"
    using consume_by_policy [OF assms(1) fo, of h] policy_of_finalOptions [OF fo] assms(3)
    by simp
  then show ?thesis
    by (auto simp add: inject_default_def)
qed

theorem inject_default_policy_witness:
  "Undefined \<noteq> Str ''provide'' \<and> is_object (overrideOptions Undefined Undefined)
   \<and> effective_policy (Obj [(''injectDefault'', Fn (Returns (Str ''D1'')))])
        (overrideOptions Undefined Undefined) = InjectDefault (Fn (Returns (Str ''D1'')))
   \<and> nearest (ancestors root) (Str ''k'') = None
   \<and> UseDependencyInjection
        \<lparr>initializer = Undefined,
           options = Obj [(''injectDefault'', Fn (Returns (Str ''D1'')))],
           injectKey = Str ''k''\<rparr> Undefined Undefined root = (Inr (Str ''D1''), root)
   \<and> nearest (ancestors \<lparr>own = Map.empty, ancestors = [[Str ''k'' \<mapsto> Str ''published'']]\<rparr>)
        (Str ''k'') = Some (Str ''published'')
   \<and> UseDependencyInjection
        \<lparr>initializer = Undefined,
           options = Obj [(''injectDefault'', Fn (Returns (Str ''D1'')))],
           injectKey = Str ''k''\<rparr> Undefined Undefined
        \<lparr>own = Map.empty, ancestors = [[Str ''k'' \<mapsto> Str ''published'']]\<rparr> =
       (Inr (Str ''published''),
        \<lparr>own = Map.empty, ancestors = [[Str ''k'' \<mapsto> Str ''published'']]\<rparr>)
   \<and> effective_policy (Obj [(''injectDefault'', Str ''plain'')])
        (overrideOptions Undefined Undefined) = InjectDefault (Str ''plain'')
   \<and> \<not> is_function (Str ''plain'')
   \<and> UseDependencyInjection
        \<lparr>initializer = Undefined, options = Obj [(''injectDefault'', Str ''plain'')],
           injectKey = Str ''k''\<rparr> Undefined Undefined root = (Inr (Str ''plain''), root)
   \<and> effective_policy (Obj [(''injectDefault'', Fn (Throws (Error ''boom'')))])
        (overrideOptions Undefined Undefined) = InjectDefault (Fn (Throws (Error ''boom'')))
   \<and> UseDependencyInjection
        \<lparr>initializer = Undefined,
           options = Obj [(''injectDefault'', Fn (Throws (Error ''boom'')))],
           injectKey = Str ''k''\<rparr> Undefined Undefined root = (Inl (Error ''boom''), root)"
  using
    inject_default_policy [of Undefined Undefined
      "\<lparr>initializer = Undefined,
         options = Obj [(''injectDefault'', Fn (Returns (Str ''D1'')))],
         injectKey = Str ''k''\<rparr>" "Fn (Returns (Str ''D1''))" root "Str ''D1''" Undefined]
    inject_default_policy [of Undefined Undefined
      "\<lparr>initializer = Undefined,
         options = Obj [(''injectDefault'', Fn (Returns (Str ''D1'')))],
         injectKey = Str ''k''\<rparr>" "Fn (Returns (Str ''D1''))"
      "\<lparr>own = Map.empty, ancestors = [[Str ''k'' \<mapsto> Str ''published'']]\<rparr>"
      "Str ''published''" Undefined]
    inject_default_policy [of Undefined Undefined
      "\<lparr>initializer = Undefined, options = Obj [(''injectDefault'', Str ''plain'')],
         injectKey = Str ''k''\<rparr>" "Str ''plain''" root Undefined Undefined]
    inject_default_policy [of Undefined Undefined
      "\<lparr>initializer = Undefined,
         options = Obj [(''injectDefault'', Fn (Throws (Error ''boom'')))],
         injectKey = Str ''k''\<rparr>" "Fn (Throws (Error ''boom''))" root Undefined "Error ''boom''"]
  by (simp add: overrideOptions_def coalesce_def root_def effective_policy_def policy_of_def)

text \<open>
  C5 as stated fails: the effective policy is \<open>injectDefault\<close>, no value is attached to
  the key, the default is a factory function that throws, and the call throws.
\<close>

theorem inject_default_policy_counterexample:
  "effective_policy (Obj [(''injectDefault'', Fn (Throws (Error ''boom'')))])
     (overrideOptions Undefined Undefined) = InjectDefault (Fn (Throws (Error ''boom'')))
   \<and> UseDependencyInjection
        \<lparr>initializer = Undefined,
           options = Obj [(''injectDefault'', Fn (Throws (Error ''boom'')))],
           injectKey = Str ''k''\<rparr> Undefined Undefined root = (Inl (Error ''boom''), root)"
  by (simp add: UseDependencyInjection_def finalOptions_def overrideOptions_def coalesce_def
        root_def effective_policy_def policy_of_def inject_default_def)

text \<open>
  C7. With no \<open>injectDefault\<close> and no \<open>throwOnNoProvider\<close> in the base options and
  none in the override configuration, and no value attached to the binding key by any
  ancestor, a consume-mode call returns \<open>undefined\<close> and throws nothing: when the
  mode argument is omitted, when it is \<open>'inject'\<close> alone, and when an override
  configuration without policy is given.
\<close>

theorem consume_no_policy:
  assumes "nullish (get_property (options c) ''injectDefault'')"
    and "nullish (get_property (options c) ''throwOnNoProvider'')"
    and "nearest (ancestors h) (injectKey c) = None"
  shows "UseDependencyInjection c Undefined Undefined h = (Inr Undefined, h)
       \<and> UseDependencyInjection c (Str ''inject'') Undefined h = (Inr Undefined, h)
       \<and> (arg0 \<noteq> Str ''provide'' \<and> is_object (overrideOptions arg0 arg1)
           \<and> nullish (get_property (overrideOptions arg0 arg1) ''injectDefault'')
           \<and> nullish (get_property (overrideOptions arg0 arg1) ''throwOnNoProvider'') \<longrightarrow>
            UseDependencyInjection c arg0 arg1 h = (Inr Undefined, h))"
proof -
  have general: "UseDependencyInjection c a0 a1 h = (Inr Undefined, h)"
    if mode: "a0 \<noteq> Str ''provide''" and ob: "is_object (overrideOptions a0 a1)"
      and none: "nullish (get_property (overrideOptions a0 a1) ''injectDefault'')"
        "nullish (get_property (overrideOptions a0 a1) ''throwOnNoProvider'')"
    for a0 a1
  proof -
    obtain fo where fo: "finalOptions (options c) (overrideOptions a0 a1) = Inr fo"
      using finalOptions_object [OF ob] by blast
    have "effective_policy (options c) (overrideOptions a0 a1) = NoPolicy"
      using none assms(1,2) by (simp add: effective_policy_def policy_of_def)
    then show ?thesis
      using consume_by_policy [OF mode fo, of h] policy_of_finalOptions [OF fo] assms(3)
      by (simp add: inject_def)
  qed
  have "UseDependencyInjection c Undefined Undefined h = (Inr Undefined, h)"
    by (rule general) (simp_all add: overrideOptions_def coalesce_def)
  moreover have "UseDependencyInjection c (Str ''inject'') Undefined h = (Inr Undefined, h)"
    by (rule general) (simp_all add: overrideOptions_def coalesce_def)
  ultimately show ?thesis using general by blast
qed

theorem consume_no_policy_witness:
  "nullish (get_property (options \<lparr>initializer = Fn (Returns (Str ''v'')), options = Obj [],
              injectKey = Sym 0 None\<rparr>) ''injectDefault'')
   \<and> nullish (get_property (options \<lparr>initializer = Fn (Returns (Str ''v'')), options = Obj [],
              injectKey = Sym 0 None\<rparr>) ''throwOnNoProvider'')
   \<and> nearest (ancestors root) (Sym 0 None) = None
   \<and> UseDependencyInjection
        \<lparr>initializer = Fn (Returns (Str ''v'')), options = Obj [], injectKey = Sym 0 None\<rparr>
        Undefined Undefined root = (Inr Undefined, root)
   \<and> UseDependencyInjection
        \<lparr>initializer = Fn (Returns (Str ''v'')), options = Obj [], injectKey = Sym 0 None\<rparr>
        (Str ''inject'') Undefined root = (Inr Undefined, root)
   \<and> Str ''inject'' \<noteq> Str ''provide''
   \<and> is_object (overrideOptions (Str ''inject'') (Obj [(''other'', Str ''x'')]))
   \<and> nullish (get_property (overrideOptions (Str ''inject'') (Obj [(''other'', Str ''x'')]))
        ''injectDefault'')
   \<and> nullish (get_property (overrideOptions (Str ''inject'') (Obj [(''other'', Str ''x'')]))
        ''throwOnNoProvider'')
   \<and> UseDependencyInjection
        \<lparr>initializer = Fn (Returns (Str ''v'')), options = Obj [], injectKey = Sym 0 None\<rparr>
        (Str ''inject'') (Obj [(''other'', Str ''x'')]) root = (Inr Undefined, root)"
  using consume_no_policy
    [of "\<lparr>initializer = Fn (Returns (Str ''v'')), options = Obj [], injectKey = Sym 0 None\<rparr>"
        root "Str ''inject''" "Obj [(''other'', Str ''x'')]"]
  by (simp add: overrideOptions_def coalesce_def root_def)

text \<open>
  C6. Let a publish-mode call on the binding key have succeeded in some component, and
  let the scope of that component be among the ancestors of the consumer, with no nearer
  scope attaching a value to the key. Then every consume-mode call on that key returns
  the published value, whatever the base options and the override configuration say.
  The published value is never \<open>null\<close> or \<open>undefined\<close> (line 287), which is why the
  test \<open>value == null\<close> of line 319 cannot take it for a missing publisher.
\<close>

theorem consume_published:
  assumes "UseDependencyInjection p (Str ''provide'') parg1 hp = (Inr v, hp')"
    and "injectKey c = injectKey p"
    and "ancestors h = mids @ own hp' # rest"
    and "\<forall>s \<in> set mids. s (injectKey p) = None"
    and "arg0 \<noteq> Str ''provide''"
    and "is_object (overrideOptions arg0 arg1)"
  shows "UseDependencyInjection c arg0 arg1 h = (Inr v, h)"
proof -
  have v: "\<not> nullish v" and hp': "hp' = provide (injectKey p) v hp"
    using provide_mode_returns [OF assms(1)] by simp_all
  have "own hp' (injectKey p) = Some v"
    using hp' by (simp add: provide_def)
  then have "nearest (ancestors h) (injectKey c) = Some v"
    using assms(2,3) nearest_append [OF assms(4)] by simp
  then show ?thesis
    using consume_found [OF assms(5,6) _ v] by simp
qed

theorem consume_published_witness:
  "UseDependencyInjection
     \<lparr>initializer = Fn (Returns (Str ''v'')),
        options = Obj [(''throwOnNoProvider'', Fn (Returns (Error ''E1'')))],
        injectKey = Str ''k''\<rparr> (Str ''provide'') Undefined root =
     (Inr (Str ''v''), provide (Str ''k'') (Str ''v'') root)
   \<and> ancestors \<lparr>own = Map.empty,
         ancestors = [[Str ''other'' \<mapsto> Str ''x''], own (provide (Str ''k'') (Str ''v'') root)]\<rparr> =
       [[Str ''other'' \<mapsto> Str ''x'']] @ own (provide (Str ''k'') (Str ''v'') root) # []
   \<and> [Str ''other'' \<mapsto> Str ''x''] (Str ''k'') = None
   \<and> Obj [(''injectDefault'', Str ''D2'')] \<noteq> Str ''provide''
   \<and> is_object (overrideOptions (Obj [(''injectDefault'', Str ''D2'')]) Undefined)
   \<and> UseDependencyInjection
        \<lparr>initializer = Fn (Returns (Str ''v'')),
           options = Obj [(''throwOnNoProvider'', Fn (Returns (Error ''E1'')))],
           injectKey = Str ''k''\<rparr> (Obj [(''injectDefault'', Str ''D2'')]) Undefined
        \<lparr>own = Map.empty,
           ancestors = [[Str ''other'' \<mapsto> Str ''x''], own (provide (Str ''k'') (Str ''v'') root)]\<rparr> =
       (Inr (Str ''v''),
        \<lparr>own = Map.empty,
           ancestors = [[Str ''other'' \<mapsto> Str ''x''], own (provide (Str ''k'') (Str ''v'') root)]\<rparr>)"
proof -
  let ?c = "\<lparr>initializer = Fn (Returns (Str ''v'')),
        options = Obj [(''throwOnNoProvider'', Fn (Returns (Error ''E1'')))],
        injectKey = Str ''k''\<rparr>"
  let ?h = "\<lparr>own = Map.empty,
         ancestors = [[Str ''other'' \<mapsto> Str ''x''], own (provide (Str ''k'') (Str ''v'') root)]\<rparr>"
  have pub: "UseDependencyInjection ?c (Str ''provide'') Undefined root =
      (Inr (Str ''v''), provide (Str ''k'') (Str ''v'') root)"
    by (simp add: UseDependencyInjection_def resolve_value_def optional_call_def)
  have anc: "ancestors ?h =
      [[Str ''other'' \<mapsto> Str ''x'']] @ own (provide (Str ''k'') (Str ''v'') root) # []"
    by simp
  have mids: "\<forall>s \<in> set [[Str ''other'' \<mapsto> Str ''x'']]. s (injectKey ?c) = None"
    by simp
  have mode: "Obj [(''injectDefault'', Str ''D2'')] \<noteq> Str ''provide''"
    by simp
  have ob: "is_object (overrideOptions (Obj [(''injectDefault'', Str ''D2'')]) Undefined)"
    by (simp add: overrideOptions_def coalesce_def)
  show ?thesis
    using consume_published [OF pub refl anc mids mode ob] pub anc mids mode ob by simp
qed

end
